theory Spec2Isabelle
  imports Complex_Main
begin

section \<open>Conventions\<close>

text \<open>
  The development covers the numeric functions of the two dashboards:
  \<^verbatim>\<open>calculate_portfolio_return\<close> and \<^verbatim>\<open>project_portfolio_growth\<close> of
  \<^verbatim>\<open>RoboAdvisor.py\<close>, and \<^verbatim>\<open>run_simulation\<close> of \<^verbatim>\<open>LawOfLargeNumbers.py\<close>.

  Python floats are rendered as HOL reals: every operation is the exact one, rounding,
  overflow and the bounded range of a double are not part of the model. What Python
  raises is a value: a function that can raise returns \<open>py_error + 'a\<close>, with \<open>Inl\<close>
  for the exception.
\<close>

datatype py_error =
    ZeroDivisionError
  | KeyError
  | ValueError
  | Complex_Valued
    \<comment> \<open>Not an exception. Python 3 evaluates a negative float to the power \<open>1/12\<close> to a
        complex number and carries on in complex arithmetic; the development follows the
        real-valued runs only and reports such a run by this value.\<close>

text \<open>Python's \<^verbatim>\<open>a / b\<close> on floats raises on a zero divisor.\<close>

definition py_truediv :: "real \<Rightarrow> real \<Rightarrow> py_error + real" where
  "py_truediv a b = (if b = 0 then Inl ZeroDivisionError else Inr (a / b))"

section \<open>RoboAdvisor.py\<close>

subsection \<open>The allocation table\<close>

text \<open>
  \<^verbatim>\<open>
  ALLOCATION_STRATEGY = {
      "Conservative": {"Stocks": 30, "Bonds": 70},
      "Moderate":     {"Stocks": 60, "Bonds": 40},
      "Aggressive":   {"Stocks": 90, "Bonds": 10},
  }
  \<close>
  A dictionary of dictionaries: a map whose values are maps.
\<close>

definition ALLOCATION_STRATEGY :: "string \<rightharpoonup> (string \<rightharpoonup> int)" where
  "ALLOCATION_STRATEGY =
     [''Conservative'' \<mapsto> [''Stocks'' \<mapsto> 30, ''Bonds'' \<mapsto> 70],
      ''Moderate'' \<mapsto> [''Stocks'' \<mapsto> 60, ''Bonds'' \<mapsto> 40],
      ''Aggressive'' \<mapsto> [''Stocks'' \<mapsto> 90, ''Bonds'' \<mapsto> 10]]"

text \<open>Subscription \<^verbatim>\<open>d[k]\<close> raises \<^verbatim>\<open>KeyError\<close> on a missing key.\<close>

definition getitem :: "('k \<rightharpoonup> 'v) \<Rightarrow> 'k \<Rightarrow> py_error + 'v" where
  "getitem d k = (case d k of None \<Rightarrow> Inl KeyError | Some v \<Rightarrow> Inr v)"

subsection \<open>calculate_portfolio_return\<close>

text \<open>
  \<^verbatim>\<open>
  def calculate_portfolio_return(risk_profile, stock_return, bond_return):
      allocation = ALLOCATION_STRATEGY[risk_profile]
      stock_percent = allocation["Stocks"] / 100
      bond_percent = allocation["Bonds"] / 100
      expected_return = (stock_percent * stock_return) + (bond_percent * bond_return)
      return expected_return
  \<close>
  The three subscriptions are evaluated in this order; the division of an integer weight
  by \<open>100\<close> is Python's true division.
\<close>

definition calculate_portfolio_return :: "string \<Rightarrow> real \<Rightarrow> real \<Rightarrow> py_error + real" where
  "calculate_portfolio_return risk_profile stock_return bond_return =
     (case getitem ALLOCATION_STRATEGY risk_profile of
        Inl e \<Rightarrow> Inl e
      | Inr allocation \<Rightarrow>
          (case getitem allocation ''Stocks'' of
             Inl e \<Rightarrow> Inl e
           | Inr stocks \<Rightarrow>
               (case getitem allocation ''Bonds'' of
                  Inl e \<Rightarrow> Inl e
                | Inr bonds \<Rightarrow>
                    (let stock_percent = real_of_int stocks / 100;
                         bond_percent = real_of_int bonds / 100;
                         expected_return =
                           (stock_percent * stock_return) + (bond_percent * bond_return)
                     in Inr expected_return))))"

subsection \<open>project_portfolio_growth\<close>

text \<open>
  \<^verbatim>\<open>
  def project_portfolio_growth(initial_savings, monthly_contribution,
                               investment_horizon, annual_return):
      years = np.arange(investment_horizon + 1)
      portfolio_values = []
      current_value = initial_savings
      portfolio_values.append(current_value) # Value at Year 0
      monthly_return = (1 + annual_return)**(1/12) - 1
      for year in range(1, investment_horizon + 1):
          current_value = current_value * (1 + annual_return)
          fv_contributions_this_year =
              monthly_contribution * (((1 + monthly_return)**12 - 1) / monthly_return)
          current_value += fv_contributions_this_year
          portfolio_values.append(current_value)
      return years, portfolio_values
  \<close>
\<close>

text \<open>
  The monthly rate, \<^verbatim>\<open>(1 + annual_return)**(1/12) - 1\<close>. The exponent is the
  non-integral float \<open>1/12\<close>: on a base of zero the power is \<open>0.0\<close> (as \<open>0 powr x\<close>
  is), on a negative base it is a complex number.
\<close>

definition monthly_rate :: "real \<Rightarrow> py_error + real" where
  "monthly_rate annual_return =
     (if 1 + annual_return < 0 then Inl Complex_Valued
      else Inr ((1 + annual_return) powr (1 / 12) - 1))"

text \<open>
  The body of the \<^verbatim>\<open>for\<close> loop, over the years still to come. The state is
  \<^verbatim>\<open>current_value\<close> and \<^verbatim>\<open>portfolio_values\<close>; the division raises inside the
  iteration, before anything is appended.
\<close>

fun growth_loop ::
  "real \<Rightarrow> real \<Rightarrow> real \<Rightarrow> int list \<Rightarrow> real \<times> real list \<Rightarrow> py_error + real \<times> real list"
where
  "growth_loop monthly_contribution annual_return monthly_return []
       (current_value, portfolio_values) = Inr (current_value, portfolio_values)"
| "growth_loop monthly_contribution annual_return monthly_return (year # rest)
       (current_value, portfolio_values) =
     (let current_value1 = current_value * (1 + annual_return)
      in case py_truediv ((1 + monthly_return) ^ 12 - 1) monthly_return of
           Inl e \<Rightarrow> Inl e
         | Inr q \<Rightarrow>
             (let fv_contributions_this_year = monthly_contribution * q;
                  current_value2 = current_value1 + fv_contributions_this_year
              in growth_loop monthly_contribution annual_return monthly_return rest
                   (current_value2, portfolio_values @ [current_value2])))"

text \<open>
  \<^verbatim>\<open>np.arange(h + 1)\<close> is the years \<open>0, \<dots>, h\<close> and \<^verbatim>\<open>range(1, h + 1)\<close> the years
  \<open>1, \<dots>, h\<close>; both are empty when there is no such year.
\<close>

definition project_portfolio_growth ::
  "real \<Rightarrow> real \<Rightarrow> int \<Rightarrow> real \<Rightarrow> py_error + int list \<times> real list"
where
  "project_portfolio_growth initial_savings monthly_contribution investment_horizon
       annual_return =
     (let years = [0..investment_horizon];
          current_value = initial_savings;
          portfolio_values = [] @ [current_value]
      in case monthly_rate annual_return of
           Inl e \<Rightarrow> Inl e
         | Inr monthly_return \<Rightarrow>
             (case growth_loop monthly_contribution annual_return monthly_return
                     [1..investment_horizon] (current_value, portfolio_values) of
                Inl e \<Rightarrow> Inl e
              | Inr (final_value, projected_values) \<Rightarrow> Inr (years, projected_values)))"

section \<open>LawOfLargeNumbers.py\<close>

subsection \<open>The library's part\<close>

text \<open>
  \<^verbatim>\<open>run_simulation\<close> draws from NumPy's process-wide generator, which it neither seeds
  nor receives as an argument. The generator is made explicit as state: it is the
  sequence of outcomes that \<^verbatim>\<open>np.random.randint(0, 2)\<close> is going to yield, \<open>True\<close> for
  \<open>1\<close> (heads) and \<open>False\<close> for \<open>0\<close> (tails); a call that draws \<open>n\<close> outcomes reads the
  first \<open>n\<close> and leaves the rest.
\<close>

type_synonym generator = "nat \<Rightarrow> bool"

text \<open>
  \<^verbatim>\<open>np.random.randint(0, 2, size=(rows, cols))\<close>, by NumPy's documented behaviour: a
  negative dimension is refused with \<^verbatim>\<open>ValueError\<close> before anything is drawn; otherwise
  the result is a \<open>rows \<times> cols\<close> array of integers from \<open>{0, 1}\<close>, filled row by row. A
  dimension of \<open>0\<close> is accepted and gives an array without entries.
\<close>

definition randint_0_2 ::
  "int \<times> int \<Rightarrow> generator \<Rightarrow> (py_error + int list list) \<times> generator"
where
  "randint_0_2 shape g =
     (case shape of
        (rows, cols) \<Rightarrow>
          if rows < 0 \<or> cols < 0 then (Inl ValueError, g)
          else (Inr (map (\<lambda>i. map (\<lambda>j. if g (i * nat cols + j) then 1 else 0)
                                 [0..<nat cols])
                         [0..<nat rows]),
                \<lambda>k. g (nat rows * nat cols + k)))"

text \<open>
  The entries of a float array that an integer division can produce. NumPy's true
  division of an integer array by an integer does not raise on a zero divisor: it warns
  and yields \<^verbatim>\<open>nan\<close> for \<open>0 / 0\<close> and a signed infinity for the rest.
\<close>

datatype float64 = Num real | NaN | PosInf | NegInf

definition np_true_divide :: "int \<Rightarrow> int \<Rightarrow> float64" where
  "np_true_divide c n =
     (if n = 0 then (if c = 0 then NaN else if 0 < c then PosInf else NegInf)
      else Num (real_of_int c / real_of_int n))"

subsection \<open>run_simulation\<close>

text \<open>
  \<^verbatim>\<open>
  @st.cache_data
  def run_simulation(n_flips, n_sims):
      results = np.random.randint(0, 2, size=(n_sims, n_flips))
      heads_counts = np.sum(results, axis=1)
      proportions_of_heads = heads_counts / n_flips
      return proportions_of_heads
  \<close>
  The function returns the proportions; the model returns the generator's new state with
  them. Streamlit's \<^verbatim>\<open>st.cache_data\<close> memoises the decorated function by its arguments
  for the lifetime of its cache; the definition is the function as written, the body that
  runs on a call the cache does not answer.
\<close>

definition run_simulation ::
  "int \<Rightarrow> int \<Rightarrow> generator \<Rightarrow> (py_error + float64 list) \<times> generator"
where
  "run_simulation n_flips n_sims g =
     (case randint_0_2 (n_sims, n_flips) g of
        (Inl e, g') \<Rightarrow> (Inl e, g')
      | (Inr results, g') \<Rightarrow>
          (let heads_counts = map sum_list results;
               proportions_of_heads = map (\<lambda>c. np_true_divide c n_flips) heads_counts
           in (Inr proportions_of_heads, g')))"

subsection \<open>Sample generators\<close>

definition all_heads :: generator where
  "all_heads k = True"

definition all_tails :: generator where
  "all_tails k = False"

definition heads_first :: "nat \<Rightarrow> generator" where
  "heads_first n k = (k < n)"

section \<open>Properties of the allocation table and the expected return\<close>

lemma ALLOCATION_STRATEGY_Conservative:
  "ALLOCATION_STRATEGY ''Conservative'' = Some [''Stocks'' \<mapsto> 30, ''Bonds'' \<mapsto> 70]"
  by (simp add: ALLOCATION_STRATEGY_def)

lemma ALLOCATION_STRATEGY_Moderate:
  "ALLOCATION_STRATEGY ''Moderate'' = Some [''Stocks'' \<mapsto> 60, ''Bonds'' \<mapsto> 40]"
  by (simp add: ALLOCATION_STRATEGY_def)

lemma ALLOCATION_STRATEGY_Aggressive:
  "ALLOCATION_STRATEGY ''Aggressive'' = Some [''Stocks'' \<mapsto> 90, ''Bonds'' \<mapsto> 10]"
  by (simp add: ALLOCATION_STRATEGY_def)

lemmas ALLOCATION_STRATEGY_rows =
  ALLOCATION_STRATEGY_Conservative ALLOCATION_STRATEGY_Moderate ALLOCATION_STRATEGY_Aggressive

text \<open>
  C8. For each of the three risk profiles the table holds a stock weight and a bond
  weight, and the two sum to exactly 100.
\<close>

theorem allocation_weights_sum_100:
  "profile \<in> {''Conservative'', ''Moderate'', ''Aggressive''} \<Longrightarrow>
     \<exists>allocation stocks bonds.
       ALLOCATION_STRATEGY profile = Some allocation \<and>
       allocation ''Stocks'' = Some stocks \<and>
       allocation ''Bonds'' = Some bonds \<and>
       stocks + bonds = 100"
  by (auto simp: ALLOCATION_STRATEGY_rows)

theorem allocation_weights_sum_100_witness:
  "''Moderate'' \<in> {''Conservative'', ''Moderate'', ''Aggressive''} \<and>
   (\<exists>allocation stocks bonds.
       ALLOCATION_STRATEGY ''Moderate'' = Some allocation \<and>
       allocation ''Stocks'' = Some stocks \<and>
       allocation ''Bonds'' = Some bonds \<and>
       stocks + bonds = 100)"
  using allocation_weights_sum_100 [of "''Moderate''"] by simp

text \<open>
  C5, as the code has it. For each of the three profiles the expected return is the
  weighted sum \<open>stocks / 100 * stock_return + bonds / 100 * bond_return\<close> with that
  profile's weights from the table; for the conservative profile at \<open>0.08\<close> and \<open>0.03\<close>
  it is \<open>0.30 * 0.08 + 0.70 * 0.03\<close>, which is \<open>0.045\<close>. The function is a function of its
  three arguments and the constant table: it reads nothing else and writes nothing.
\<close>

theorem expected_return_weighted_sum:
  "(profile \<in> {''Conservative'', ''Moderate'', ''Aggressive''} \<longrightarrow>
     (\<exists>allocation stocks bonds.
        ALLOCATION_STRATEGY profile = Some allocation \<and>
        allocation ''Stocks'' = Some stocks \<and>
        allocation ''Bonds'' = Some bonds \<and>
        calculate_portfolio_return profile stock_return bond_return =
          Inr (real_of_int stocks / 100 * stock_return +
               real_of_int bonds / 100 * bond_return))) \<and>
   calculate_portfolio_return ''Conservative'' 0.08 0.03 = Inr (0.30 * 0.08 + 0.70 * 0.03) \<and>
   (0.30 * 0.08 + 0.70 * 0.03 :: real) = 0.045"
  by (auto simp: calculate_portfolio_return_def getitem_def ALLOCATION_STRATEGY_rows)

theorem expected_return_weighted_sum_witness:
  "''Aggressive'' \<in> {''Conservative'', ''Moderate'', ''Aggressive''} \<and>
   (\<exists>allocation stocks bonds.
      ALLOCATION_STRATEGY ''Aggressive'' = Some allocation \<and>
      allocation ''Stocks'' = Some stocks \<and>
      allocation ''Bonds'' = Some bonds \<and>
      calculate_portfolio_return ''Aggressive'' 0.08 0.03 =
        Inr (real_of_int stocks / 100 * 0.08 + real_of_int bonds / 100 * 0.03)) \<and>
   calculate_portfolio_return ''Aggressive'' 0.08 0.03 = Inr 0.075"
proof -
  have member: "''Aggressive'' \<in> {''Conservative'', ''Moderate'', ''Aggressive''}"
    by simp
  from expected_return_weighted_sum [of "''Aggressive''" "0.08" "0.03"] member
  have "\<exists>allocation stocks bonds.
      ALLOCATION_STRATEGY ''Aggressive'' = Some allocation \<and>
      allocation ''Stocks'' = Some stocks \<and>
      allocation ''Bonds'' = Some bonds \<and>
      calculate_portfolio_return ''Aggressive'' 0.08 0.03 =
        Inr (real_of_int stocks / 100 * 0.08 + real_of_int bonds / 100 * 0.03)"
    by blast
  moreover from this have "calculate_portfolio_return ''Aggressive'' 0.08 0.03 = Inr 0.075"
    by (auto simp: ALLOCATION_STRATEGY_rows)
  ultimately show ?thesis using member by blast
qed

text \<open>
  The value \<open>0.051\<close> is not the conservative profile's return at \<open>0.08\<close> and \<open>0.03\<close>.
\<close>

theorem expected_return_conservative_not_0051:
  "calculate_portfolio_return ''Conservative'' 0.08 0.03 \<noteq> Inr 0.051"
  by (simp add: calculate_portfolio_return_def getitem_def ALLOCATION_STRATEGY_rows)

text \<open>
  In the exact arithmetic of the model a stock return above the bond return orders the
  three profiles strictly. The statement is one about reals: the three values differ by
  multiples of \<open>0.3 * (stock_return - bond_return)\<close>, which rounding to doubles need not
  keep apart.
\<close>

lemma expected_return_ordering_exact:
  assumes "bond_return < stock_return"
  shows "\<exists>c m a.
     calculate_portfolio_return ''Conservative'' stock_return bond_return = Inr c \<and>
     calculate_portfolio_return ''Moderate'' stock_return bond_return = Inr m \<and>
     calculate_portfolio_return ''Aggressive'' stock_return bond_return = Inr a \<and>
     c < m \<and> m < a"
  using assms
  by (simp add: calculate_portfolio_return_def getitem_def ALLOCATION_STRATEGY_rows)

section \<open>Properties of the projection\<close>

subsection \<open>The monthly rate\<close>

lemma twelfth_root_power_12: "0 \<le> x \<Longrightarrow> (x powr (1 / 12)) ^ 12 = (x::real)"
proof (cases "x = 0")
  case True
  then show ?thesis by simp
next
  case False
  assume "0 \<le> x"
  with False have pos: "0 < x" by simp
  then have "0 < x powr (1 / 12)" by simp
  then have "(x powr (1 / 12)) ^ 12 = (x powr (1 / 12)) powr (real 12)"
    by (simp only: powr_realpow)
  also have "\<dots> = x powr 1" by (simp add: powr_powr)
  also from pos have "\<dots> = x" by simp
  finally show ?thesis .
qed

lemma monthly_return_nonzero:
  assumes "0 \<le> 1 + r" and "r \<noteq> 0"
  shows "(1 + r) powr (1 / 12) - 1 \<noteq> (0::real)"
proof
  assume "(1 + r) powr (1 / 12) - 1 = 0"
  then have "(1 + r) powr (1 / 12) = 1" by simp
  then have "((1 + r) powr (1 / 12)) ^ 12 = 1" by simp
  with assms(1) have "1 + r = 1" by (simp add: twelfth_root_power_12)
  with assms(2) show False by simp
qed

lemma monthly_return_positive:
  assumes "0 < r"
  shows "0 < (1 + r) powr (1 / 12) - (1::real)"
proof -
  have "1 \<le> (1 + r) powr (1 / 12)"
    using assms by (intro ge_one_powr_ge_zero) simp_all
  moreover have "(1 + r) powr (1 / 12) - 1 \<noteq> 0"
    using assms by (intro monthly_return_nonzero) simp_all
  ultimately show ?thesis by simp
qed

lemma annuity_factor_nonneg:
  assumes "0 < m"
  shows "0 \<le> ((1 + m) ^ 12 - 1) / (m::real)"
proof -
  have "1 \<le> (1 + m) ^ 12" using assms by (intro one_le_power) simp
  with assms show ?thesis by simp
qed

subsection \<open>The loop\<close>

text \<open>With a monthly rate of zero the first iteration raises.\<close>

lemma growth_loop_raises:
  "ys \<noteq> [] \<Longrightarrow> growth_loop c r 0 ys st = Inl ZeroDivisionError"
  by (cases ys; cases st) (simp_all add: py_truediv_def)

text \<open>
  With any other monthly rate the loop runs to its end: it appends one value for each
  year, every one obtained from the value before it by the step of the loop body.
\<close>

lemma growth_loop_returns:
  "m \<noteq> 0 \<Longrightarrow>
   \<exists>ext. growth_loop c r m ys (cur, vals) = Inr (last (cur # ext), vals @ ext) \<and>
         length ext = length ys \<and>
         (\<forall>i<length ext.
            ext ! i = (cur # ext) ! i * (1 + r) + c * (((1 + m) ^ 12 - 1) / m))"
proof (induction ys arbitrary: cur vals)
  case Nil
  then show ?case by simp
next
  case (Cons y ys)
  let ?cur2 = "cur * (1 + r) + c * (((1 + m) ^ 12 - 1) / m)"
  from Cons.IH [OF Cons.prems, of ?cur2 "vals @ [?cur2]"]
  obtain ext where ext:
    "growth_loop c r m ys (?cur2, vals @ [?cur2]) =
       Inr (last (?cur2 # ext), (vals @ [?cur2]) @ ext)"
    "length ext = length ys"
    "\<forall>i<length ext.
       ext ! i = (?cur2 # ext) ! i * (1 + r) + c * (((1 + m) ^ 12 - 1) / m)"
    by blast
  have "growth_loop c r m (y # ys) (cur, vals) =
      growth_loop c r m ys (?cur2, vals @ [?cur2])"
    using Cons.prems by (simp add: py_truediv_def Let_def)
  also note ext(1)
  also have "Inr (last (?cur2 # ext), (vals @ [?cur2]) @ ext) =
      (Inr (last (cur # ?cur2 # ext), vals @ ?cur2 # ext) :: py_error + real \<times> real list)"
    by simp
  finally have "growth_loop c r m (y # ys) (cur, vals) =
      Inr (last (cur # ?cur2 # ext), vals @ ?cur2 # ext)" .
  moreover have "length (?cur2 # ext) = length (y # ys)"
    using ext(2) by simp
  moreover have "\<forall>i<length (?cur2 # ext).
      (?cur2 # ext) ! i =
        (cur # ?cur2 # ext) ! i * (1 + r) + c * (((1 + m) ^ 12 - 1) / m)"
  proof (intro allI impI)
    fix i
    assume "i < length (?cur2 # ext)"
    then show "(?cur2 # ext) ! i =
        (cur # ?cur2 # ext) ! i * (1 + r) + c * (((1 + m) ^ 12 - 1) / m)"
      using ext(3) by (cases i) simp_all
  qed
  ultimately show ?case by blast
qed

subsection \<open>The projected series\<close>

lemma project_portfolio_growth_values:
  assumes "0 \<le> 1 + annual_return" and "annual_return \<noteq> 0"
  shows "\<exists>vals.
          project_portfolio_growth initial_savings monthly_contribution horizon annual_return
            = Inr ([0..horizon], vals) \<and>
          length vals = nat horizon + 1 \<and>
          vals ! 0 = initial_savings \<and>
          (\<forall>y<nat horizon.
             vals ! Suc y =
               vals ! y * (1 + annual_return) +
               monthly_contribution *
                 (((1 + ((1 + annual_return) powr (1 / 12) - 1)) ^ 12 - 1) /
                  ((1 + annual_return) powr (1 / 12) - 1)))"
proof -
  let ?m = "(1 + annual_return) powr (1 / 12) - 1"
  have m: "?m \<noteq> 0" using assms by (rule monthly_return_nonzero)
  from growth_loop_returns [OF m, of monthly_contribution annual_return "[1..horizon]"
      initial_savings "[initial_savings]"]
  obtain ext where ext:
    "growth_loop monthly_contribution annual_return ?m [1..horizon]
       (initial_savings, [initial_savings]) =
     Inr (last (initial_savings # ext), [initial_savings] @ ext)"
    "length ext = length [1..horizon]"
    "\<forall>i<length ext. ext ! i = (initial_savings # ext) ! i * (1 + annual_return) +
        monthly_contribution * (((1 + ?m) ^ 12 - 1) / ?m)"
    by blast
  have "project_portfolio_growth initial_savings monthly_contribution horizon annual_return
          = Inr ([0..horizon], initial_savings # ext)"
    using assms(1) ext(1) by (simp add: project_portfolio_growth_def monthly_rate_def)
  moreover have "length (initial_savings # ext) = nat horizon + 1"
    using ext(2) by simp
  moreover have "\<forall>y<nat horizon. (initial_savings # ext) ! Suc y =
      (initial_savings # ext) ! y * (1 + annual_return) +
      monthly_contribution * (((1 + ?m) ^ 12 - 1) / ?m)"
    using ext(2,3) by simp
  ultimately show ?thesis by (intro exI [of _ "initial_savings # ext"]) simp
qed

text \<open>
  At an annual return of zero the monthly rate is zero, and a projection over one year or
  more raises in its first year: no series is returned.
\<close>

lemma zero_rate_raises:
  assumes "1 \<le> horizon"
  shows "project_portfolio_growth initial_savings monthly_contribution horizon 0
           = Inl ZeroDivisionError"
proof -
  from assms have "[1..horizon] \<noteq> []" by simp
  then show ?thesis
    by (simp add: project_portfolio_growth_def monthly_rate_def growth_loop_raises)
qed

text \<open>
  At a positive annual return, with savings and contributions that are not negative, the
  series is returned and never decreases from one year to the next.
\<close>

lemma projection_nondecreasing_positive_rate:
  assumes "0 \<le> initial_savings" and "0 \<le> monthly_contribution" and "0 < annual_return"
  shows "\<exists>vals.
          project_portfolio_growth initial_savings monthly_contribution horizon annual_return
            = Inr ([0..horizon], vals) \<and>
          length vals = nat horizon + 1 \<and>
          (\<forall>y<nat horizon. vals ! y \<le> vals ! Suc y)"
proof -
  let ?m = "(1 + annual_return) powr (1 / 12) - 1"
  let ?q = "((1 + ?m) ^ 12 - 1) / ?m"
  from assms(3) have "0 \<le> 1 + annual_return" "annual_return \<noteq> 0" by simp_all
  from project_portfolio_growth_values [OF this, of initial_savings monthly_contribution horizon]
  obtain vals where vals:
    "project_portfolio_growth initial_savings monthly_contribution horizon annual_return
       = Inr ([0..horizon], vals)"
    "length vals = nat horizon + 1"
    "vals ! 0 = initial_savings"
    "\<forall>y<nat horizon.
       vals ! Suc y = vals ! y * (1 + annual_return) + monthly_contribution * ?q"
    by blast
  have q: "0 \<le> ?q"
    using assms(3) by (intro annuity_factor_nonneg monthly_return_positive)
  have added: "0 \<le> monthly_contribution * ?q"
    using assms(2) q by (rule mult_nonneg_nonneg)
  have nonneg: "y \<le> nat horizon \<Longrightarrow> 0 \<le> vals ! y" for y
  proof (induction y)
    case 0
    with assms(1) vals(3) show ?case by simp
  next
    case (Suc y)
    then have "0 \<le> vals ! y"
      and eq: "vals ! Suc y = vals ! y * (1 + annual_return) + monthly_contribution * ?q"
      using vals(4) by simp_all
    moreover from this(1) assms(3) have "0 \<le> vals ! y * (1 + annual_return)" by simp
    ultimately show ?case using added by linarith
  qed
  have "vals ! y \<le> vals ! Suc y" if "y < nat horizon" for y
  proof -
    from that have v: "0 \<le> vals ! y" by (intro nonneg) simp
    from that vals(4)
    have eq: "vals ! Suc y = vals ! y * (1 + annual_return) + monthly_contribution * ?q"
      by simp
    from v assms(3) have "vals ! y * 1 \<le> vals ! y * (1 + annual_return)"
      by (intro mult_left_mono) simp_all
    with eq added show ?thesis by linarith
  qed
  with vals(1,2) show ?thesis by blast
qed

text \<open>
  C3. Where the power stays real (\<open>0 \<le> 1 + annual_return\<close>) and the formula's divisor is
  not zero (\<open>annual_return \<noteq> 0\<close>), the projection returns the years \<open>0, \<dots>, horizon\<close> and
  one value for each: the value of year \<open>0\<close> is the initial savings, and the value of each
  later year is the previous year's value times \<open>1 + annual_return\<close> plus
  \<open>monthly_contribution * ((1 + monthly_return) ^ 12 - 1) / monthly_return\<close>, where
  \<open>monthly_return = (1 + annual_return) powr (1 / 12) - 1\<close>. The values stand in the list in
  the order of their years.
\<close>

theorem project_growth_recurrence:
  assumes "0 \<le> 1 + annual_return" and "annual_return \<noteq> 0"
  shows "\<exists>vals.
          project_portfolio_growth initial_savings monthly_contribution horizon annual_return
            = Inr ([0..horizon], vals) \<and>
          length vals = nat horizon + 1 \<and>
          vals ! 0 = initial_savings \<and>
          (\<forall>y<nat horizon.
             vals ! Suc y =
               vals ! y * (1 + annual_return) +
               monthly_contribution *
                 (((1 + ((1 + annual_return) powr (1 / 12) - 1)) ^ 12 - 1) /
                  ((1 + annual_return) powr (1 / 12) - 1)))"
  using assms by (rule project_portfolio_growth_values)

theorem project_growth_recurrence_witness:
  "(0::real) \<le> 1 + 45 / 1000 \<and> (45 / 1000 :: real) \<noteq> 0 \<and>
   (\<exists>vals. project_portfolio_growth 10000 200 2 (45 / 1000) = Inr ([0..2], vals) \<and>
          length vals = nat 2 + 1 \<and>
          vals ! 0 = 10000 \<and>
          (\<forall>y<nat 2.
             vals ! Suc y =
               vals ! y * (1 + 45 / 1000) +
               200 *
                 (((1 + ((1 + 45 / 1000) powr (1 / 12) - 1)) ^ 12 - 1) /
                  ((1 + 45 / 1000) powr (1 / 12) - 1))))"
proof -
  have h1: "(0::real) \<le> 1 + 45 / 1000" by simp
  have h2: "(45 / 1000 :: real) \<noteq> 0" by simp
  from project_growth_recurrence [OF h1 h2, of 10000 200 2] h1 h2 show ?thesis by blast
qed

text \<open>
  C1. The claim is that an annual return of zero is a case of its own, with a yearly
  contribution term of \<open>monthly_contribution * 12\<close>, so that savings of \<open>0\<close>, a monthly
  contribution of \<open>100\<close>, one year and a return of \<open>0.0\<close> give the values \<open>0.0\<close> and
  \<open>1200.0\<close>. The code has no such case: on this input the monthly rate is zero and the
  division of the first year raises \<^verbatim>\<open>ZeroDivisionError\<close>.
\<close>

theorem project_growth_zero_return_raises:
  "project_portfolio_growth 0 100 1 0 = Inl ZeroDivisionError"
  by (simp add: project_portfolio_growth_def monthly_rate_def py_truediv_def)

text \<open>
  C4. The claim is that every input with savings and contributions that are not
  negative and a horizon of one year or more gets a series of \<open>horizon + 1\<close> values that
  starts at the initial savings. At an annual return of zero the code returns no series:
  savings of \<open>10000\<close>, no contribution, one year and a return of \<open>0.0\<close> raise
  \<^verbatim>\<open>ZeroDivisionError\<close>.
\<close>

theorem project_growth_no_series_at_zero_return:
  "project_portfolio_growth 10000 0 1 0 = Inl ZeroDivisionError"
  by (simp add: project_portfolio_growth_def monthly_rate_def py_truediv_def)

text \<open>
  C7. The claim is that the series never decreases when the contribution and the annual
  return are not negative. An annual return of zero is such an input, and there the code
  returns no series to compare: savings of \<open>1000\<close>, a monthly contribution of \<open>100\<close>, two
  years and a return of \<open>0.0\<close> raise \<^verbatim>\<open>ZeroDivisionError\<close> in the first year.
\<close>

theorem project_growth_zero_return_two_years_raises:
  "project_portfolio_growth 1000 100 2 0 = Inl ZeroDivisionError"
  using zero_rate_raises [of 2 1000 100] by simp

section \<open>Properties of the simulation\<close>

lemma sum_list_flips:
  "sum_list (map (\<lambda>j. if P j then 1 else 0) xs) = int (length (filter P xs))"
  by (induction xs) simp_all

text \<open>
  With dimensions that are not negative the call draws \<open>n_sims * n_flips\<close> outcomes and
  returns, for each run, its number of heads divided by \<open>n_flips\<close>.
\<close>

lemma run_simulation_valid:
  "0 \<le> n_flips \<Longrightarrow> 0 \<le> n_sims \<Longrightarrow>
   run_simulation n_flips n_sims g =
     (Inr (map (\<lambda>i. np_true_divide
                  (int (length (filter (\<lambda>j. g (i * nat n_flips + j)) [0..<nat n_flips])))
                  n_flips)
             [0..<nat n_sims]),
      \<lambda>k. g (nat n_sims * nat n_flips + k))"
  by (simp add: run_simulation_def randint_0_2_def sum_list_flips comp_def)

lemma run_simulation_negative:
  "n_flips < 0 \<or> n_sims < 0 \<Longrightarrow> run_simulation n_flips n_sims g = (Inl ValueError, g)"
  by (auto simp: run_simulation_def randint_0_2_def)

text \<open>
  C2. For positive \<open>n_flips\<close> and \<open>n_sims\<close>, whatever the generator yields, the call
  returns exactly \<open>n_sims\<close> values; the value of run \<open>i\<close> is a number between \<open>0\<close> and \<open>1\<close>,
  the count of heads among the \<open>n_flips\<close> outcomes of that run divided by \<open>n_flips\<close>.
\<close>

theorem run_simulation_proportions:
  "0 < n_flips \<Longrightarrow> 0 < n_sims \<Longrightarrow>
   \<exists>ps. fst (run_simulation n_flips n_sims g) = Inr ps \<and>
        length ps = nat n_sims \<and>
        (\<forall>i<nat n_sims. \<exists>x. ps ! i = Num x \<and> 0 \<le> x \<and> x \<le> 1 \<and>
            x = real (length (filter (\<lambda>j. g (i * nat n_flips + j)) [0..<nat n_flips]))
                  / real_of_int n_flips)"
proof -
  assume pos: "0 < n_flips" "0 < n_sims"
  let ?heads = "\<lambda>i. length (filter (\<lambda>j. g (i * nat n_flips + j)) [0..<nat n_flips])"
  have le: "real (?heads i) \<le> real_of_int n_flips" for i
  proof -
    have "?heads i \<le> length [0..<nat n_flips]" by (rule length_filter_le)
    with pos show ?thesis by simp
  qed
  have "real (?heads i) / real_of_int n_flips \<le> 1" for i
    using pos le [of i] by (simp add: divide_le_eq_1)
  with pos show ?thesis
    by (simp add: run_simulation_valid np_true_divide_def)
qed

theorem run_simulation_proportions_witness:
  "(0::int) < 2 \<and> (0::int) < 2 \<and>
   (\<exists>ps. fst (run_simulation 2 2 (heads_first 3)) = Inr ps \<and>
        length ps = nat 2 \<and>
        (\<forall>i<nat 2. \<exists>x. ps ! i = Num x \<and> 0 \<le> x \<and> x \<le> 1 \<and>
            x = real (length (filter (\<lambda>j. heads_first 3 (i * nat 2 + j)) [0..<nat 2]))
                  / real_of_int 2)) \<and>
   fst (run_simulation 2 2 (heads_first 3)) = Inr [Num 1, Num (1 / 2)]"
proof -
  have "fst (run_simulation 2 2 (heads_first 3)) = Inr [Num 1, Num (1 / 2)]"
    by (simp add: run_simulation_def randint_0_2_def np_true_divide_def heads_first_def
        upt_rec)
  with run_simulation_proportions [of 2 2 "heads_first 3"] show ?thesis by simp
qed

text \<open>
  C6, as the code has it. \<^verbatim>\<open>run_simulation\<close> checks nothing itself and changes no
  argument. A negative \<open>n_flips\<close> or \<open>n_sims\<close> is refused by the array constructor with
  \<^verbatim>\<open>ValueError\<close>, before any outcome is drawn and with no result. With no run
  (\<open>n_sims = 0\<close>) the call returns the empty sequence, and with runs of no flip
  (\<open>n_flips = 0\<close>) it returns \<^verbatim>\<open>nan\<close> for every run; neither raises.
\<close>

theorem run_simulation_nonpositive:
  "n_flips \<le> 0 \<or> n_sims \<le> 0 \<Longrightarrow>
   run_simulation n_flips n_sims g =
     (if n_flips < 0 \<or> n_sims < 0 then (Inl ValueError, g)
      else if n_sims = 0 then (Inr [], g)
      else (Inr (replicate (nat n_sims) NaN), g))"
  apply (cases "n_flips < 0 \<or> n_sims < 0")
   apply (simp add: run_simulation_negative)
  apply (auto simp: run_simulation_valid np_true_divide_def map_replicate_const)
  done

theorem run_simulation_nonpositive_witness:
  "((0::int) \<le> 0 \<or> (3::int) \<le> 0) \<and>
   run_simulation 0 3 all_heads = (Inr [NaN, NaN, NaN], all_heads)"
  using run_simulation_nonpositive [of 0 3 all_heads]
  by (simp add: numeral_3_eq_3)

text \<open>
  A call for no run of five flips returns the empty sequence and raises nothing.
\<close>

theorem run_simulation_zero_runs_returns:
  "run_simulation 5 0 all_heads = (Inr [], all_heads)"
  by (simp add: run_simulation_def randint_0_2_def)

text \<open>
  C9, as the code has it. \<^verbatim>\<open>run_simulation\<close> takes no seed. What it returns is fixed by
  its two arguments together with the \<open>n_sims * n_flips\<close> outcomes it draws from the
  process-wide generator: two calls with the same arguments that meet the same outcomes
  return the same sequence.
\<close>

theorem run_simulation_same_draws:
  "map g [0..<nat n_sims * nat n_flips] = map g' [0..<nat n_sims * nat n_flips] \<Longrightarrow>
   fst (run_simulation n_flips n_sims g) = fst (run_simulation n_flips n_sims g')"
proof (cases "n_flips < 0 \<or> n_sims < 0")
  case True
  then show ?thesis by (simp add: run_simulation_negative)
next
  case False
  assume "map g [0..<nat n_sims * nat n_flips] = map g' [0..<nat n_sims * nat n_flips]"
  then have same: "g k = g' k" if "k < nat n_sims * nat n_flips" for k
    using that by simp
  have inside: "i * nat n_flips + j < nat n_sims * nat n_flips"
    if "i < nat n_sims" "j < nat n_flips" for i j
  proof -
    have "i * nat n_flips + j < Suc i * nat n_flips" using that by simp
    also have "\<dots> \<le> nat n_sims * nat n_flips"
      using that by (intro mult_le_mono1) simp
    finally show ?thesis .
  qed
  have "filter (\<lambda>j. g (i * nat n_flips + j)) [0..<nat n_flips] =
        filter (\<lambda>j. g' (i * nat n_flips + j)) [0..<nat n_flips]"
    if "i < nat n_sims" for i
    using that by (intro filter_cong) (simp_all add: same inside)
  with False show ?thesis
    by (simp add: run_simulation_valid)
qed

theorem run_simulation_same_draws_witness:
  "map all_heads [0..<nat 5 * nat 10] = map (heads_first 50) [0..<nat 5 * nat 10] \<and>
   all_heads 50 \<noteq> heads_first 50 50 \<and>
   fst (run_simulation 10 5 all_heads) = fst (run_simulation 10 5 (heads_first 50))"
proof -
  have h: "map all_heads [0..<nat 5 * nat 10] = map (heads_first 50) [0..<nat 5 * nat 10]"
    by (simp add: all_heads_def heads_first_def)
  from run_simulation_same_draws [OF h] h show ?thesis
    by (simp add: all_heads_def heads_first_def)
qed

text \<open>
  The same arguments, ten flips in each of five runs, give different sequences on
  different outcomes of the generator: the arguments alone do not fix the result.
\<close>

theorem run_simulation_not_fixed_by_arguments:
  "fst (run_simulation 10 5 all_heads) \<noteq> fst (run_simulation 10 5 all_tails)"
  by (simp add: run_simulation_def randint_0_2_def np_true_divide_def all_heads_def
      all_tails_def upt_rec)

end
